theory Spec2Isabelle
  imports Complex_Main
begin

section \<open>Event model (core/types.ts)\<close>

text \<open>
  A \<open>KakiatoEvent\<close> is a union discriminated by its \<open>type\<close> field. Each interface of the
  union is one constructor; the \<open>type\<close> strings an interface admits are an enumeration.
  Optional fields are options; for \<open>data\<close> and \<open>text\<close> of an input event both
  \<open>undefined\<close> and \<open>null\<close> are \<open>None\<close> (the player tests for both at once).
  The advisory fields the player never reads (\<open>meta\<close>, \<open>modifiers\<close>, \<open>segments\<close>,
  \<open>affinity\<close>, \<open>payload\<close>) are left out. A JavaScript \<open>number\<close> that is a caret
  position is an \<open>int\<close>; a time or a speed is a \<open>real\<close> that stands for a finite
  double, and the arithmetic of the engine rounds as doubles do (see below). A string is
  the list of its code units.
\<close>

datatype keyboard_type = keydown | keyup
datatype input_type = beforeinput | input
datatype composition_type = compositionstart | compositionupdate | compositionend
datatype focus_type = focus | blur

datatype event =
    KakiatoKeyboardEvent real keyboard_type "int option" string string
      \<comment> \<open>time, type, pos, key, code\<close>
  | KakiatoInputEvent real input_type "int option" string "string option" "string option"
      \<comment> \<open>time, type, pos, inputType, data, text\<close>
  | KakiatoCompositionEvent real composition_type "int option" "string option"
      \<comment> \<open>time, type, pos, data\<close>
  | KakiatoSelectionChangeEvent real "int option" int int
      \<comment> \<open>time, pos, anchor.index, focus.index\<close>
  | KakiatoFocusEvent real focus_type "int option"
      \<comment> \<open>time, type, pos\<close>
  | KakiatoCustomEvent real "int option" string
      \<comment> \<open>time, pos, label\<close>

fun time :: "event \<Rightarrow> real" where
  "time (KakiatoKeyboardEvent t _ _ _ _) = t"
| "time (KakiatoInputEvent t _ _ _ _ _) = t"
| "time (KakiatoCompositionEvent t _ _ _) = t"
| "time (KakiatoSelectionChangeEvent t _ _ _) = t"
| "time (KakiatoFocusEvent t _ _) = t"
| "time (KakiatoCustomEvent t _ _) = t"

section \<open>State Reconstructor (player/state.ts)\<close>

record TextState =
  "text" :: string
  cursorPosition :: int
  selectionStart :: int
  selectionEnd :: int
  isComposing :: bool
  compositionText :: string

text \<open>The constructor and \<open>reset\<close> build the same record.\<close>

definition reset :: "string \<Rightarrow> TextState" where
  "reset initialText =
     \<lparr>text = initialText, cursorPosition = 0, selectionStart = 0, selectionEnd = 0,
      isComposing = False, compositionText = ''''\<rparr>"

text \<open>
  \<open>String.prototype.substring\<close>: each bound is clamped into \<open>[0, length]\<close>, the two are
  swapped when the first exceeds the second, and a missing second bound is the length.
\<close>

definition substring :: "string \<Rightarrow> int \<Rightarrow> int \<Rightarrow> string" where
  "substring s a b =
     (let len = int (length s);
          intStart = min (max a 0) len;
          intEnd = min (max b 0) len;
          lo = min intStart intEnd;
          hi = max intStart intEnd
      in take (nat (hi - lo)) (drop (nat lo) s))"

definition substring_from :: "string \<Rightarrow> int \<Rightarrow> string" where
  "substring_from s a = substring s a (int (length s))"

definition insertText :: "int \<Rightarrow> string \<Rightarrow> TextState \<Rightarrow> TextState" where
  "insertText p t st =
     (let before = substring (text st) 0 p;
          after = substring_from (text st) p
      in st\<lparr>text := before @ t @ after, cursorPosition := p + int (length t)\<rparr>)"

definition deleteBackward :: "int \<Rightarrow> TextState \<Rightarrow> TextState" where
  "deleteBackward p st =
     (if p \<le> 0 then st
      else let before = substring (text st) 0 (p - 1);
               after = substring_from (text st) p
           in st\<lparr>text := before @ after, cursorPosition := p - 1\<rparr>)"

definition deleteForward :: "int \<Rightarrow> TextState \<Rightarrow> TextState" where
  "deleteForward p st =
     (if p \<ge> int (length (text st)) then st
      else let before = substring (text st) 0 p;
               after = substring_from (text st) (p + 1)
           in st\<lparr>text := before @ after\<rparr>)"

text \<open>
  \<open>handleInputEvent\<close> returns at once unless the type is \<open>input\<close>. A present \<open>text\<close>
  wins over \<open>data\<close>; the delta branch switches on the \<open>inputType\<close> string; the cursor
  is set from \<open>pos\<close> last.
\<close>

fun handleInputEvent :: "event \<Rightarrow> TextState \<Rightarrow> TextState" where
  "handleInputEvent (KakiatoInputEvent t input pos ity dat txt) st =
     (let st1 =
        (case txt of
           Some full \<Rightarrow> st\<lparr>text := full\<rparr>
         | None \<Rightarrow>
            (case dat of
               Some d \<Rightarrow>
                 (let p = (case pos of Some q \<Rightarrow> q | None \<Rightarrow> cursorPosition st)
                  in if ity = ''insertText'' \<or> ity = ''insertCompositionText''
                       then insertText p d st
                     else if ity = ''deleteContentBackward'' then deleteBackward p st
                     else if ity = ''deleteContentForward'' then deleteForward p st
                     else st)
             | None \<Rightarrow> st))
      in case pos of Some q \<Rightarrow> st1\<lparr>cursorPosition := q\<rparr> | None \<Rightarrow> st1)"
| "handleInputEvent _ st = st"

fun handleSelectionChange :: "event \<Rightarrow> TextState \<Rightarrow> TextState" where
  "handleSelectionChange (KakiatoSelectionChangeEvent t pos anchor foc) st =
     st\<lparr>selectionStart := min anchor foc, selectionEnd := max anchor foc,
        cursorPosition := foc\<rparr>"
| "handleSelectionChange _ st = st"

fun applyEvent :: "event \<Rightarrow> TextState \<Rightarrow> TextState" where
  "applyEvent (KakiatoInputEvent t input pos ity dat txt) st =
     handleInputEvent (KakiatoInputEvent t input pos ity dat txt) st"
| "applyEvent (KakiatoInputEvent t beforeinput pos ity dat txt) st = st"
| "applyEvent (KakiatoCompositionEvent t compositionstart pos dat) st =
     st\<lparr>isComposing := True,
        compositionText := (case dat of Some d \<Rightarrow> d | None \<Rightarrow> '''')\<rparr>"
| "applyEvent (KakiatoCompositionEvent t compositionupdate pos dat) st =
     st\<lparr>compositionText := (case dat of Some d \<Rightarrow> d | None \<Rightarrow> '''')\<rparr>"
| "applyEvent (KakiatoCompositionEvent t compositionend pos dat) st =
     st\<lparr>isComposing := False, compositionText := ''''\<rparr>"
| "applyEvent (KakiatoSelectionChangeEvent t pos anchor foc) st =
     handleSelectionChange (KakiatoSelectionChangeEvent t pos anchor foc) st"
| "applyEvent (KakiatoKeyboardEvent t ty pos k c) st =
     (case pos of Some q \<Rightarrow> st\<lparr>cursorPosition := q\<rparr> | None \<Rightarrow> st)"
| "applyEvent (KakiatoFocusEvent t ty pos) st = st"
| "applyEvent (KakiatoCustomEvent t pos l) st = st"

text \<open>
  The property the specification asks of a selection: both ends lie inside the text.
\<close>

definition selection_within_text :: "TextState \<Rightarrow> bool" where
  "selection_within_text st \<longleftrightarrow>
     0 \<le> selectionStart st \<and> selectionStart st \<le> int (length (text st)) \<and>
     0 \<le> selectionEnd st \<and> selectionEnd st \<le> int (length (text st))"

section \<open>Arithmetic on numbers\<close>

text \<open>
  The engine subtracts, multiplies and divides JavaScript numbers, which are IEEE 754
  binary64 values: each operation yields the exact result rounded to the nearest double,
  ties to the even significand. A finite double is a real number here. \<open>exponent x\<close> is
  the integer \<open>e\<close> with \<open>2^e \<le> |x| < 2^(e+1)\<close>; the doubles around \<open>x\<close> are the multiples
  of \<open>2^(e-52)\<close>, and of \<open>2^(-1074)\<close> in the subnormal range. Results of magnitude
  \<open>2^1024\<close> or more (\<open>Infinity\<close> in the source), \<open>NaN\<close> and division by zero are outside the
  model: \<open>finite64\<close> says that a value is below that magnitude, and \<open>is_double\<close> that a
  real is a finite double.
\<close>

fun floor_log2 :: "nat \<Rightarrow> nat" where
  "floor_log2 n = (if n < 2 then 0 else Suc (floor_log2 (n div 2)))"

declare floor_log2.simps [simp del]

definition exponent :: "real \<Rightarrow> int" where
  "exponent x =
     (if 1 \<le> \<bar>x\<bar> then int (floor_log2 (nat \<lfloor>\<bar>x\<bar>\<rfloor>))
      else - int (Suc (floor_log2 (nat \<lceil>1 / \<bar>x\<bar>\<rceil> - 1))))"

definition pow2 :: "int \<Rightarrow> real" where
  "pow2 k = (if 0 \<le> k then 2 ^ nat k else 1 / 2 ^ nat (- k))"

definition round_half_even :: "real \<Rightarrow> int" where
  "round_half_even y =
     (let f = \<lfloor>y\<rfloor>; r = y - of_int f
      in if r < 1 / 2 then f else if 1 / 2 < r then f + 1
         else if even f then f else f + 1)"

definition round_double :: "real \<Rightarrow> real" where
  "round_double x =
     (if x = 0 then 0
      else (let q = pow2 (max (exponent x - 52) (- 1074))
            in of_int (round_half_even (x / q)) * q))"

definition number_sub :: "real \<Rightarrow> real \<Rightarrow> real" where
  "number_sub a b = round_double (a - b)"

definition number_mul :: "real \<Rightarrow> real \<Rightarrow> real" where
  "number_mul a b = round_double (a * b)"

definition number_div :: "real \<Rightarrow> real \<Rightarrow> real" where
  "number_div a b = round_double (a / b)"



section \<open>Playback Engine (player/engine.ts)\<close>

text \<open>
  A handler is a function reference; \<open>indexOf\<close> compares references, so a handler is
  modelled by a number that names it. What its body does to the engine is given by an
  environment \<open>body\<close>: the \<open>offEvent\<close> calls it makes, in order, each time it is invoked.
  Bodies that call other engine methods are outside this model.

  \<open>setTimeout\<close> is modelled by the field \<open>timeoutId\<close> itself: it holds the one live timer,
  with its delay and the event its callback captured. A timer that has fired or was
  cleared is \<open>None\<close> (in the source the stale id stays in the field, and clearing it does
  nothing). \<open>Date.now()\<close> is the argument \<open>now\<close>, read once for each call of a method.
\<close>

type_synonym handler = nat

record timer =
  delay :: real
  captured :: event

record PlaybackEngine =
  events :: "event list"
  currentIndex :: nat
  isPlaying :: bool
  speed :: real
  loop :: bool
  timeoutId :: "timer option"
  startTime :: real
  pausedAt :: real
  onEventHandlers :: "handler list"

datatype error = Error string

text \<open>One invocation of a handler: the handler, the event it received, the index.\<close>

type_synonym call = "handler \<times> event option \<times> nat"

definition PlaybackEngine_new :: "real option \<Rightarrow> bool option \<Rightarrow> PlaybackEngine" where
  "PlaybackEngine_new optSpeed optLoop =
     \<lparr>events = [], currentIndex = 0, isPlaying = False,
      speed = (case optSpeed of Some s \<Rightarrow> s | None \<Rightarrow> 1),
      loop = (case optLoop of Some l \<Rightarrow> l | None \<Rightarrow> False),
      timeoutId = None, startTime = 0, pausedAt = 0, onEventHandlers = []\<rparr>"

definition loadEvents :: "event list \<Rightarrow> PlaybackEngine \<Rightarrow> PlaybackEngine" where
  "loadEvents evs e = e\<lparr>events := evs, currentIndex := 0, pausedAt := 0\<rparr>"

definition onEvent :: "handler \<Rightarrow> PlaybackEngine \<Rightarrow> PlaybackEngine" where
  "onEvent h e = e\<lparr>onEventHandlers := onEventHandlers e @ [h]\<rparr>"

text \<open>\<open>Array.prototype.indexOf\<close> (first match, \<open>-1\<close> when absent) and \<open>splice(i, 1)\<close>.\<close>

fun indexOf :: "'a list \<Rightarrow> 'a \<Rightarrow> int" where
  "indexOf [] x = - 1"
| "indexOf (y # ys) x =
     (if y = x then 0 else (let i = indexOf ys x in if i < 0 then - 1 else i + 1))"

definition splice1 :: "'a list \<Rightarrow> nat \<Rightarrow> 'a list" where
  "splice1 xs i = take i xs @ drop (Suc i) xs"

definition offEvent :: "handler \<Rightarrow> PlaybackEngine \<Rightarrow> PlaybackEngine" where
  "offEvent h e =
     (let index = indexOf (onEventHandlers e) h
      in if index > - 1
         then e\<lparr>onEventHandlers := splice1 (onEventHandlers e) (nat index)\<rparr>
         else e)"

text \<open>Reading \<open>xs[i]\<close>: out of range the value is \<open>undefined\<close>, here \<open>None\<close>.\<close>

definition at_index :: "'a list \<Rightarrow> nat \<Rightarrow> 'a option" where
  "at_index xs i = (if i < length xs then Some (xs ! i) else None)"

text \<open>
  \<open>emitEvent\<close> is a \<open>for ... of\<close> over \<open>this.onEventHandlers\<close>. The array iterator keeps a
  position and reads the live array at each step: it stops when the position reaches the
  current length. \<open>emit_from\<close> is that loop from position \<open>i\<close>; it returns the engine and
  the handlers invoked, in order. The loop ends because a body only removes handlers.
\<close>

function emit_from ::
  "(handler \<Rightarrow> handler list) \<Rightarrow> nat \<Rightarrow> PlaybackEngine \<Rightarrow> PlaybackEngine \<times> handler list"
where
  "emit_from body i e =
     (if i < length (onEventHandlers e)
      then (let h = onEventHandlers e ! i;
                e1 = fold offEvent (body h) e;
                r = emit_from body (Suc i) e1
            in (fst r, h # snd r))
      else (e, []))"
  by pat_completeness auto
termination
proof (relation "measure (\<lambda>(body, i, e). length (onEventHandlers e) - i)")
  show "wf (measure (\<lambda>(body, i, e). length (onEventHandlers e) - i))"
    by simp
next
  fix body :: "handler \<Rightarrow> handler list" and i e x xa
  assume lt: "i < length (onEventHandlers e)"
    and x: "x = onEventHandlers e ! i" and xa: "xa = fold offEvent (body x) e"
  have one: "length (onEventHandlers (offEvent h e')) \<le> length (onEventHandlers e')" for h e'
    by (auto simp: offEvent_def Let_def splice1_def min_def)
  have many: "length (onEventHandlers (fold offEvent hs e')) \<le> length (onEventHandlers e')"
    for hs e'
  proof (induction hs arbitrary: e')
    case Nil
    show ?case by simp
  next
    case (Cons h hs)
    have "length (onEventHandlers (fold offEvent hs (offEvent h e')))
            \<le> length (onEventHandlers (offEvent h e'))"
      by (rule Cons.IH)
    also have "\<dots> \<le> length (onEventHandlers e')"
      by (rule one)
    finally show ?case by simp
  qed
  have "length (onEventHandlers xa) \<le> length (onEventHandlers e)"
    unfolding xa by (rule many)
  with lt show "((body, Suc i, xa), (body, i, e))
      \<in> measure (\<lambda>(body, i, e). length (onEventHandlers e) - i)"
    by simp
qed

definition emitEvent ::
  "(handler \<Rightarrow> handler list) \<Rightarrow> event option \<Rightarrow> nat \<Rightarrow> PlaybackEngine
     \<Rightarrow> PlaybackEngine \<times> call list"
where
  "emitEvent body ev idx e =
     (let r = emit_from body 0 e in (fst r, map (\<lambda>h. (h, ev, idx)) (snd r)))"

text \<open>
  \<open>scheduleNextEvent\<close> calls itself after a loop restart. With no events loaded and
  \<open>loop\<close> set that recursion never ends, so the result is an option: \<open>None\<close> is not
  returning.
\<close>

partial_function (option) scheduleNextEvent ::
  "real \<Rightarrow> PlaybackEngine \<Rightarrow> PlaybackEngine option"
where
  "scheduleNextEvent now e =
     (if \<not> isPlaying e then Some e
      else if currentIndex e \<ge> length (events e) then
        (if loop e
         then scheduleNextEvent now (e\<lparr>currentIndex := 0, startTime := now, pausedAt := 0\<rparr>)
         else Some (e\<lparr>isPlaying := False\<rparr>))
      else
        (let event = events e ! currentIndex e;
             elapsedRealTime = number_sub now (startTime e);
             currentTime = number_mul elapsedRealTime (speed e);
             timeUntilEvent = number_sub (time event) currentTime;
             delay = max 0 (number_div timeUntilEvent (speed e))
         in Some (e\<lparr>timeoutId := Some \<lparr>delay = delay, captured = event\<rparr>\<rparr>)))"

declare scheduleNextEvent.simps [code]

definition play :: "real \<Rightarrow> PlaybackEngine \<Rightarrow> PlaybackEngine option" where
  "play now e =
     (if isPlaying e then Some e
      else if length (events e) = 0 then Some e
      else scheduleNextEvent now
             (e\<lparr>isPlaying := True,
                startTime := number_sub now (number_div (pausedAt e) (speed e))\<rparr>))"

definition pause :: "real \<Rightarrow> PlaybackEngine \<Rightarrow> PlaybackEngine" where
  "pause now e =
     (if \<not> isPlaying e then e
      else e\<lparr>isPlaying := False,
             pausedAt := number_mul (number_sub now (startTime e)) (speed e),
             timeoutId := None\<rparr>)"

definition stop :: "real \<Rightarrow> PlaybackEngine \<Rightarrow> PlaybackEngine" where
  "stop now e = (pause now e)\<lparr>currentIndex := 0, pausedAt := 0\<rparr>"

text \<open>
  The first loop of \<open>seek\<close>: \<open>targetIndex\<close> starts at 0, takes the index of each event
  whose time is at most \<open>t\<close>, and the scan stops at the first later event.
\<close>

fun findTarget :: "real \<Rightarrow> event list \<Rightarrow> nat \<Rightarrow> nat \<Rightarrow> nat" where
  "findTarget t [] i targetIndex = targetIndex"
| "findTarget t (ev # rest) i targetIndex =
     (if time ev \<le> t then findTarget t rest (Suc i) i else targetIndex)"

text \<open>The second loop of \<open>seek\<close>: emit \<open>this.events[i]\<close> for each index of the list.\<close>

fun replay ::
  "(handler \<Rightarrow> handler list) \<Rightarrow> nat list \<Rightarrow> PlaybackEngine \<Rightarrow> PlaybackEngine \<times> call list"
where
  "replay body [] e = (e, [])"
| "replay body (i # rest) e =
     (let r1 = emitEvent body (at_index (events e) i) i e;
          r2 = replay body rest (fst r1)
      in (fst r2, snd r1 @ snd r2))"

definition seek ::
  "(handler \<Rightarrow> handler list) \<Rightarrow> real \<Rightarrow> real \<Rightarrow> PlaybackEngine
     \<Rightarrow> (PlaybackEngine \<times> call list) option"
where
  "seek body now t e =
     (let wasPlaying = isPlaying e;
          e1 = pause now e;
          targetIndex = findTarget t (events e1) 0 0;
          e2 = e1\<lparr>currentIndex := targetIndex, pausedAt := t\<rparr>;
          r = replay body [0 ..< Suc targetIndex] e2
      in if wasPlaying then map_option (\<lambda>e3. (e3, snd r)) (play now (fst r))
         else Some r)"

text \<open>
  \<open>setSpeed\<close> throws before it touches anything: the result \<open>Inl\<close> carries the error and
  the state the engine is left in.
\<close>

definition setSpeed ::
  "real \<Rightarrow> real \<Rightarrow> PlaybackEngine \<Rightarrow> (error \<times> PlaybackEngine + PlaybackEngine) option"
where
  "setSpeed now s e =
     (if s \<le> 0 then Some (Inl (Error ''Speed must be positive'', e))
      else
        (let wasPlaying = isPlaying e;
             e1 = (if wasPlaying then pause now e else e);
             e2 = e1\<lparr>speed := s\<rparr>
         in if wasPlaying then map_option Inr (play now e2) else Some (Inr e2)))"

definition getSpeed :: "PlaybackEngine \<Rightarrow> real" where
  "getSpeed e = speed e"

definition getCurrentTime :: "real \<Rightarrow> PlaybackEngine \<Rightarrow> real" where
  "getCurrentTime now e =
     (if isPlaying e then number_mul (number_sub now (startTime e)) (speed e)
      else pausedAt e)"

definition getDuration :: "PlaybackEngine \<Rightarrow> real" where
  "getDuration e =
     (if length (events e) = 0 then 0 else time (events e ! (length (events e) - 1)))"

definition getCurrentIndex :: "PlaybackEngine \<Rightarrow> nat" where
  "getCurrentIndex e = currentIndex e"

definition getIsPlaying :: "PlaybackEngine \<Rightarrow> bool" where
  "getIsPlaying e = isPlaying e"

text \<open>
  The callback that \<open>scheduleNextEvent\<close> hands to \<open>setTimeout\<close>, run when the live timer
  fires at wall time \<open>now\<close>: emit the captured event with the current index, advance the
  index, schedule again.
\<close>

definition fireTimeout ::
  "(handler \<Rightarrow> handler list) \<Rightarrow> real \<Rightarrow> PlaybackEngine
     \<Rightarrow> (PlaybackEngine \<times> call list) option"
where
  "fireTimeout body now e =
     (case timeoutId e of
        None \<Rightarrow> Some (e, [])
      | Some tm \<Rightarrow>
          (let r = emitEvent body (Some (captured tm)) (currentIndex e)
                     (e\<lparr>timeoutId := None\<rparr>);
               e1 = (fst r)\<lparr>currentIndex := currentIndex (fst r) + 1\<rparr>
           in map_option (\<lambda>e2. (e2, snd r)) (scheduleNextEvent now e1)))"

text \<open>
  The subscriber that \<open>KakiatoPlayer\<close> registers feeds each event it receives to its
  reconstructor. \<open>applyEvent\<close> reads \<open>event.type\<close>, so an \<open>undefined\<close> event raises a
  TypeError: \<open>None\<close>.
\<close>

fun feed :: "handler \<Rightarrow> TextState \<Rightarrow> call list \<Rightarrow> TextState option" where
  "feed h st [] = Some st"
| "feed h st ((h', ev, idx) # rest) =
     (if h' = h
      then (case ev of None \<Rightarrow> None | Some v \<Rightarrow> feed h (applyEvent v st) rest)
      else feed h st rest)"

section \<open>Fixtures\<close>

text \<open>The event list of the engine's test suite.\<close>

definition mockEvents :: "event list" where
  "mockEvents =
     [KakiatoFocusEvent 0 focus None,
      KakiatoKeyboardEvent 100 keydown None ''h'' ''KeyH'',
      KakiatoInputEvent 200 input None ''insertText'' (Some ''h'') None,
      KakiatoKeyboardEvent 300 keydown None ''i'' ''KeyI'',
      KakiatoInputEvent 400 input None ''insertText'' (Some ''i'') None]"

text \<open>Handler bodies: none calls \<open>offEvent\<close>; handler 1 unregisters itself.\<close>

definition no_removals :: "handler \<Rightarrow> handler list" where
  "no_removals h = []"

definition removes_itself :: "handler \<Rightarrow> handler list" where
  "removes_itself h = (if h = 1 then [1] else [])"

text \<open>An engine with speed 1, the test events loaded and handler 1 subscribed.\<close>

definition loaded_engine :: PlaybackEngine where
  "loaded_engine = loadEvents mockEvents (onEvent 1 (PlaybackEngine_new (Some 1) None))"

text \<open>That engine after \<open>play()\<close> at wall time 1000: the first event is scheduled.\<close>

definition playing_engine :: PlaybackEngine where
  "playing_engine =
     \<lparr>events = mockEvents, currentIndex = 0, isPlaying = True, speed = 1, loop = False,
      timeoutId = Some \<lparr>delay = 0, captured = KakiatoFocusEvent 0 focus None\<rparr>,
      startTime = 1000, pausedAt = 0, onEventHandlers = [1]\<rparr>"




section \<open>Properties of the State Reconstructor\<close>

lemma substring_whole: "int (length s) \<le> p \<Longrightarrow> substring s 0 p = s"
  by (cases s) (auto simp: substring_def Let_def min_def max_def)

lemma substring_from_beyond: "int (length s) \<le> p \<Longrightarrow> substring_from s p = []"
  by (cases s) (auto simp: substring_from_def substring_def Let_def min_def max_def)

text \<open>
  C9. An event of type \<open>beforeinput\<close> changes none of the six fields of the text state,
  whatever \<open>data\<close> or \<open>text\<close> it carries.
\<close>

theorem beforeinput_is_noop:
  "text (applyEvent (KakiatoInputEvent t beforeinput pos ity dat txt) st) = text st \<and>
   cursorPosition (applyEvent (KakiatoInputEvent t beforeinput pos ity dat txt) st)
     = cursorPosition st \<and>
   selectionStart (applyEvent (KakiatoInputEvent t beforeinput pos ity dat txt) st)
     = selectionStart st \<and>
   selectionEnd (applyEvent (KakiatoInputEvent t beforeinput pos ity dat txt) st)
     = selectionEnd st \<and>
   isComposing (applyEvent (KakiatoInputEvent t beforeinput pos ity dat txt) st)
     = isComposing st \<and>
   compositionText (applyEvent (KakiatoInputEvent t beforeinput pos ity dat txt) st)
     = compositionText st"
  by simp

text \<open>
  C7, as stated, fails: an Input event is of type \<open>beforeinput\<close> or \<open>input\<close>, and a
  \<open>beforeinput\<close> event that carries the full text \<open>abc\<close> leaves the buffer \<open>ab\<close> as it is.
\<close>

theorem beforeinput_ignores_full_text_counterexample:
  "text (applyEvent
          (KakiatoInputEvent 10 beforeinput (Some 3) ''insertText'' (Some ''c'') (Some ''abc''))
          (reset ''ab'')) = ''ab'' \<and>
   text (applyEvent
          (KakiatoInputEvent 10 beforeinput (Some 3) ''insertText'' (Some ''c'') (Some ''abc''))
          (reset ''ab'')) \<noteq> ''abc''"
  by (simp add: reset_def)

text \<open>
  C7, amended. An Input event that carries a full text: when its type is \<open>input\<close>, the
  buffer becomes that text, whatever the input type and the \<open>data\<close> are, and the delta
  branch does not run, so the only other change is the cursor taking the event's \<open>pos\<close>
  when there is one; when its type is \<open>beforeinput\<close>, the state stays as it is.
\<close>

theorem full_text_payload_wins:
  "applyEvent (KakiatoInputEvent t ty pos ity dat (Some full)) st =
     (if ty = input
      then st\<lparr>text := full,
              cursorPosition := (case pos of Some q \<Rightarrow> q | None \<Rightarrow> cursorPosition st)\<rparr>
      else st)"
  by (cases ty) (simp_all split: option.splits)

theorem full_text_payload_wins_witness:
  "applyEvent (KakiatoInputEvent 10 input (Some 3) ''deleteContentBackward'' (Some ''c'')
      (Some ''abc'')) (reset ''ab'') = (reset ''abc'')\<lparr>cursorPosition := 3\<rparr> \<and>
   applyEvent (KakiatoInputEvent 10 beforeinput (Some 3) ''deleteContentBackward'' (Some ''c'')
      (Some ''abc'')) (reset ''ab'') = reset ''ab''"
  using full_text_payload_wins
    [where t = 10 and ty = input and pos = "Some 3" and ity = "''deleteContentBackward''"
      and dat = "Some ''c''" and full = "''abc''" and st = "reset ''ab''"]
    full_text_payload_wins
    [where t = 10 and ty = beforeinput and pos = "Some 3" and ity = "''deleteContentBackward''"
      and dat = "Some ''c''" and full = "''abc''" and st = "reset ''ab''"]
  by (simp add: reset_def)

text \<open>
  C8. A delta-only \<open>deleteContentBackward\<close> whose position (the event's \<open>pos\<close>, else the
  cursor) is at most 0 leaves the buffer as it is, and so does a delta-only
  \<open>deleteContentForward\<close> whose position is at least the buffer length.
\<close>

theorem delete_at_boundary_keeps_buffer:
  "((case pos of Some q \<Rightarrow> q | None \<Rightarrow> cursorPosition st) \<le> 0 \<longrightarrow>
      text (applyEvent
             (KakiatoInputEvent t input pos ''deleteContentBackward'' (Some d) None) st)
        = text st) \<and>
   (int (length (text st)) \<le> (case pos' of Some q \<Rightarrow> q | None \<Rightarrow> cursorPosition st) \<longrightarrow>
      text (applyEvent
             (KakiatoInputEvent t' input pos' ''deleteContentForward'' (Some d') None) st)
        = text st)"
  by (simp add: deleteBackward_def deleteForward_def split: option.splits)

theorem delete_at_boundary_keeps_buffer_witness:
  "text (applyEvent
          (KakiatoInputEvent 10 input (Some 0) ''deleteContentBackward'' (Some ''x'') None)
          (reset ''ab'')) = ''ab'' \<and>
   text (applyEvent
          (KakiatoInputEvent 20 input (Some 2) ''deleteContentForward'' (Some ''y'') None)
          (reset ''ab'')) = ''ab''"
  using delete_at_boundary_keeps_buffer
    [where pos = "Some 0" and st = "reset ''ab''" and t = 10 and d = "''x''"
      and pos' = "Some 2" and t' = 20 and d' = "''y''"]
  by (simp add: reset_def)

text \<open>
  C10, as stated, fails: with the position 7 beyond the end of the buffer \<open>ab\<close>, a
  delta-only \<open>insertText\<close> of type \<open>beforeinput\<close> and a delta-only \<open>insertFromPaste\<close> of
  type \<open>input\<close> both leave the buffer as it is: the delta \<open>cd\<close> is not appended.
\<close>

theorem insert_delta_dropped_counterexample:
  "text (applyEvent
          (KakiatoInputEvent 10 beforeinput (Some 7) ''insertText'' (Some ''cd'') None)
          (reset ''ab'')) = ''ab'' \<and>
   text (applyEvent
          (KakiatoInputEvent 10 input (Some 7) ''insertFromPaste'' (Some ''cd'') None)
          (reset ''ab'')) = ''ab'' \<and>
   ''ab'' \<noteq> ''ab'' @ ''cd''"
  by (simp add: reset_def)

text \<open>
  C10, amended. Take a delta-only Input event whose position (the event's \<open>pos\<close>, else
  the cursor) is beyond the end of the buffer. When its type is \<open>input\<close> and its input
  type is \<open>insertText\<close> or \<open>insertCompositionText\<close>, the new text is the old text
  followed by the delta. In every other case (type \<open>beforeinput\<close>, or another input
  type) the buffer stays as it is.
\<close>

theorem insert_beyond_end_appends:
  assumes "int (length (text st)) < (case pos of Some q \<Rightarrow> q | None \<Rightarrow> cursorPosition st)"
  shows "text (applyEvent (KakiatoInputEvent t ty pos ity (Some d) None) st) =
     (if ty = input \<and> (ity = ''insertText'' \<or> ity = ''insertCompositionText'')
      then text st @ d else text st)"
proof (cases ty)
  case beforeinput
  then show ?thesis by simp
next
  case input
  let ?p = "case pos of Some q \<Rightarrow> q | None \<Rightarrow> cursorPosition st"
  from assms have beyond: "int (length (text st)) \<le> ?p"
    and before: "int (length (text st)) \<le> ?p - 1"
    and positive: "\<not> ?p \<le> 0"
    by simp_all
  have ins: "text (insertText ?p d st) = text st @ d"
    by (simp add: insertText_def Let_def substring_whole [OF beyond]
        substring_from_beyond [OF beyond])
  have backward: "text (deleteBackward ?p st) = text st"
    using positive
    by (simp add: deleteBackward_def Let_def substring_whole [OF before]
        substring_from_beyond [OF beyond])
  have forward: "text (deleteForward ?p st) = text st"
    using beyond by (simp add: deleteForward_def)
  from input ins backward forward show ?thesis
    by (cases pos) (simp_all add: Let_def)
qed

theorem insert_beyond_end_appends_witness:
  "int (length (text (reset ''ab''))) < 7 \<and>
   text (applyEvent (KakiatoInputEvent 10 input (Some 7) ''insertText'' (Some ''cd'') None)
      (reset ''ab'')) = ''abcd'' \<and>
   text (applyEvent
      (KakiatoInputEvent 10 input (Some 7) ''deleteContentBackward'' (Some ''cd'') None)
      (reset ''ab'')) = ''ab''"
  using insert_beyond_end_appends
    [where st = "reset ''ab''" and pos = "Some 7" and t = 10 and ty = input
      and ity = "''insertText''" and d = "''cd''"]
    insert_beyond_end_appends
    [where st = "reset ''ab''" and pos = "Some 7" and t = 10 and ty = input
      and ity = "''deleteContentBackward''" and d = "''cd''"]
  by (simp add: reset_def)

text \<open>
  C4, as stated, fails: a \<open>selectionchange\<close> with anchor -5 and focus 100 on the text
  \<open>abc\<close> leaves the selection outside the text.
\<close>

theorem selection_not_clamped_counterexample:
  "\<not> selection_within_text
       (applyEvent (KakiatoSelectionChangeEvent 100 None (- 5) 100) (reset ''abc''))"
  by (simp add: selection_within_text_def reset_def)

text \<open>
  C4, amended. After a \<open>selectionchange\<close> the selection start is the smaller and the
  selection end the larger of the anchor and focus indices, as they are in the event;
  the selection lies within the text exactly when both indices do.
\<close>

theorem selection_is_min_max_of_indices:
  "selectionStart (applyEvent (KakiatoSelectionChangeEvent t pos a f) st) = min a f \<and>
   selectionEnd (applyEvent (KakiatoSelectionChangeEvent t pos a f) st) = max a f \<and>
   (selection_within_text (applyEvent (KakiatoSelectionChangeEvent t pos a f) st) \<longleftrightarrow>
      0 \<le> a \<and> a \<le> int (length (text st)) \<and> 0 \<le> f \<and> f \<le> int (length (text st)))"
  by (auto simp: selection_within_text_def)

section \<open>Properties of the Playback Engine\<close>

text \<open>
  Rounding to a double leaves every integer below \<open>2^53\<close> in magnitude as it is, so the
  engine's arithmetic is exact on integer millisecond times at speed 1.
\<close>

lemma floor_log2_bounds:
  "1 \<le> n \<Longrightarrow> 2 ^ floor_log2 n \<le> n \<and> n < 2 ^ Suc (floor_log2 n)"
proof (induction n rule: floor_log2.induct)
  case (1 n)
  show ?case
  proof (cases "n < 2")
    case True
    with "1.prems" have "n = 1" by simp
    then show ?thesis by (simp add: floor_log2.simps)
  next
    case False
    then have "1 \<le> n div 2" by simp
    with "1.IH" False have ih: "2 ^ floor_log2 (n div 2) \<le> n div 2"
      "n div 2 < 2 ^ Suc (floor_log2 (n div 2))"
      by simp_all
    have eq: "floor_log2 n = Suc (floor_log2 (n div 2))"
      using False by (subst floor_log2.simps) simp
    from ih show ?thesis
      unfolding eq by auto
  qed
qed

lemma floor_log2_less:
  assumes "1 \<le> n" and "n < 2 ^ k"
  shows "floor_log2 n < k"
proof (rule ccontr)
  assume "\<not> floor_log2 n < k"
  then have "k \<le> floor_log2 n" by simp
  then have "(2::nat) ^ k \<le> 2 ^ floor_log2 n"
    by (rule power_increasing) simp
  also have "\<dots> \<le> n"
    using floor_log2_bounds [OF assms(1)] by simp
  finally show False using assms(2) by simp
qed

text \<open>
  \<open>exponent\<close> is the binary exponent: \<open>2^e \<le> |x| < 2^(e+1)\<close> for every \<open>x\<close> but 0.
\<close>

lemma exponent_bounds:
  assumes "x \<noteq> 0"
  shows "pow2 (exponent x) \<le> \<bar>x\<bar> \<and> \<bar>x\<bar> < pow2 (exponent x + 1)"
proof (cases "1 \<le> \<bar>x\<bar>")
  case True
  define n where "n = nat \<lfloor>\<bar>x\<bar>\<rfloor>"
  define e where "e = floor_log2 n"
  from True have fl1: "1 \<le> \<lfloor>\<bar>x\<bar>\<rfloor>"
    by (simp add: le_floor_iff)
  then have n1: "1 \<le> n"
    unfolding n_def by linarith
  from fl1 have "0 \<le> \<lfloor>\<bar>x\<bar>\<rfloor>"
    by linarith
  then have rn: "real n = of_int \<lfloor>\<bar>x\<bar>\<rfloor>"
    unfolding n_def by (rule of_nat_nat)
  have lower: "real n \<le> \<bar>x\<bar>"
    unfolding rn by linarith
  have upper: "\<bar>x\<bar> < real n + 1"
    unfolding rn by linarith
  from floor_log2_bounds [OF n1]
  have b1: "2 ^ e \<le> n" and b2: "n < 2 ^ Suc e"
    by (simp_all add: e_def)
  from b1 have "(2::real) ^ e \<le> real n"
    by simp
  with lower have lo: "2 ^ e \<le> \<bar>x\<bar>"
    by linarith
  from b2 have "Suc n \<le> 2 ^ Suc e"
    by simp
  then have "real (Suc n) \<le> (2::real) ^ Suc e"
    by (metis of_nat_le_iff of_nat_numeral of_nat_power)
  then have "real n + 1 \<le> (2::real) ^ Suc e"
    by (simp add: add.commute)
  with upper have hi: "\<bar>x\<bar> < 2 ^ Suc e"
    by linarith
  have "exponent x = int e"
    using True by (simp add: exponent_def n_def e_def)
  with lo hi show ?thesis
    by (simp add: pow2_def nat_add_distrib)
next
  case False
  with assms have small: "0 < \<bar>x\<bar>" "\<bar>x\<bar> < 1"
    by simp_all
  define y where "y = 1 / \<bar>x\<bar>"
  define m where "m = nat \<lceil>y\<rceil>"
  define k where "k = floor_log2 (m - 1)"
  from small have y1: "1 < y"
    by (simp add: y_def)
  then have c2: "2 \<le> \<lceil>y\<rceil>"
    by (simp add: le_ceiling_iff)
  then have m2: "2 \<le> m"
    unfolding m_def by linarith
  from c2 have "0 \<le> \<lceil>y\<rceil>"
    by linarith
  then have rm: "real m = of_int \<lceil>y\<rceil>"
    unfolding m_def by (rule of_nat_nat)
  have ym: "y \<le> real m"
    unfolding rm by linarith
  have my: "real m - 1 < y"
    unfolding rm by linarith
  from m2 have "1 \<le> m - 1"
    by simp
  from floor_log2_bounds [OF this]
  have b1: "2 ^ k \<le> m - 1" and b2: "m - 1 < 2 ^ Suc k"
    by (simp_all add: k_def)
  from b1 have "(2::real) ^ k \<le> real (m - 1)"
    by simp
  moreover from m2 have "real (m - 1) = real m - 1"
    by (simp add: of_nat_diff)
  ultimately have lo: "2 ^ k < y"
    using my by linarith
  from b2 m2 have "m \<le> 2 ^ Suc k"
    by simp
  then have "real m \<le> (2::real) ^ Suc k"
    by (metis of_nat_le_iff of_nat_numeral of_nat_power)
  with ym have hi: "y \<le> 2 ^ Suc k"
    by linarith
  from lo small have up: "\<bar>x\<bar> < 1 / 2 ^ k"
    by (simp add: y_def field_simps)
  from hi small have low: "1 / 2 ^ Suc k \<le> \<bar>x\<bar>"
    by (simp add: y_def field_simps)
  have ex: "exponent x = - int (Suc k)"
    using False by (simp add: exponent_def k_def m_def y_def)
  have "nat (int k + 1) = Suc k"
    by simp
  then have p1: "pow2 (- int (Suc k)) = 1 / 2 ^ Suc k"
    by (simp add: pow2_def)
  have shift: "- int (Suc k) + 1 = - int k"
    by simp
  have p2: "pow2 (- int (Suc k) + 1) = 1 / 2 ^ k"
    unfolding shift by (cases "k = 0") (simp_all add: pow2_def)
  from up low show ?thesis
    unfolding ex p1 p2 by (rule conjI [rotated])
qed

lemma round_half_even_of_int: "round_half_even (of_int k) = k"
  by (simp add: round_half_even_def)

lemma round_double_of_int:
  assumes "\<bar>i\<bar> < 2 ^ 53"
  shows "round_double (of_int i) = of_int i"
proof (cases "i = 0")
  case True
  then show ?thesis by (simp add: round_double_def)
next
  case False
  define n where "n = nat \<bar>i\<bar>"
  define e where "e = floor_log2 n"
  from False have n1: "1 \<le> n" by (simp add: n_def)
  from assms have "n < 2 ^ 53"
    by (simp add: n_def nat_less_iff)
  with n1 have e52: "e < 53"
    unfolding e_def by (rule floor_log2_less)
  have fl: "\<lfloor>\<bar>real_of_int i\<bar>\<rfloor> = \<bar>i\<bar>"
    by (metis floor_of_int of_int_abs)
  from False have ge1: "1 \<le> \<bar>real_of_int i\<bar>"
    by simp
  have ex: "exponent (of_int i) = int e"
    using ge1 by (simp add: exponent_def fl e_def n_def)
  have q: "pow2 (max (exponent (of_int i) - 52) (- 1074)) = 1 / 2 ^ (52 - e)"
    using e52 by (simp add: ex pow2_def max_def nat_diff_distrib')
  have "real_of_int i * 2 ^ (52 - e) = of_int (i * 2 ^ (52 - e))"
    by simp
  then have scaled: "round_half_even (real_of_int i * 2 ^ (52 - e)) = i * 2 ^ (52 - e)"
    by (simp only: round_half_even_of_int)
  show ?thesis
    using False by (simp add: round_double_def Let_def q scaled)
qed

lemma round_double_numeral [simp]:
  "numeral k < (2::real) ^ 53 \<Longrightarrow> round_double (numeral k) = numeral k"
  using round_double_of_int [of "numeral k"] by simp

lemma round_double_neg_numeral [simp]:
  "numeral k < (2::real) ^ 53 \<Longrightarrow> round_double (- numeral k) = - numeral k"
  using round_double_of_int [of "- numeral k"] by simp

lemma round_double_0 [simp]: "round_double 0 = 0"
  by (simp add: round_double_def)

lemma round_double_1 [simp]: "round_double 1 = 1"
  using round_double_of_int [of 1] by simp



lemmas number_ops = number_sub_def number_mul_def number_div_def

text \<open>
  The scan of \<open>seek\<close> stops at the first event later than \<open>t\<close>; on non-decreasing
  times the events before that point are all the events with time at most \<open>t\<close>.
\<close>

lemma findTarget_takeWhile:
  "findTarget t evs i tgt =
     (if takeWhile (\<lambda>ev. time ev \<le> t) evs = [] then tgt
      else i + length (takeWhile (\<lambda>ev. time ev \<le> t) evs) - 1)"
  by (induction evs arbitrary: i tgt) auto

lemma sorted_takeWhile_filter:
  "sorted (map time evs) \<Longrightarrow>
     takeWhile (\<lambda>ev. time ev \<le> t) evs = filter (\<lambda>ev. time ev \<le> t) evs"
proof (induction evs)
  case Nil
  show ?case by simp
next
  case (Cons ev rest)
  show ?case
  proof (cases "time ev \<le> t")
    case True
    with Cons show ?thesis by simp
  next
    case False
    with Cons.prems have "\<forall>x \<in> set rest. \<not> time x \<le> t"
      by auto
    then have "filter (\<lambda>ev. time ev \<le> t) rest = []"
      by (simp add: filter_empty_conv)
    with False show ?thesis by simp
  qed
qed

lemma emit_from_no_removals:
  assumes "\<And>h. body h = []"
  shows "emit_from body i e = (e, drop i (onEventHandlers e))"
proof (induction "length (onEventHandlers e) - i" arbitrary: i)
  case 0
  then show ?case
    by (subst emit_from.simps) simp
next
  case (Suc n)
  then have lt: "i < length (onEventHandlers e)" by simp
  from Suc have "n = length (onEventHandlers e) - Suc i" by simp
  then have "emit_from body (Suc i) e = (e, drop (Suc i) (onEventHandlers e))"
    by (rule Suc.hyps(1))
  with lt assms show ?case
    by (subst emit_from.simps) (simp add: Let_def Cons_nth_drop_Suc)
qed

lemma emitEvent_no_removals:
  assumes "\<And>h. body h = []"
  shows "emitEvent body ev idx e = (e, map (\<lambda>h. (h, ev, idx)) (onEventHandlers e))"
  by (simp add: emitEvent_def emit_from_no_removals [OF assms] del: emit_from.simps)

lemma replay_no_removals:
  assumes "\<And>h. body h = []"
  shows "replay body is e =
     (e, concat (map (\<lambda>i. map (\<lambda>h. (h, at_index (events e) i, i)) (onEventHandlers e)) is))"
  by (induction "is") (simp_all add: emitEvent_no_removals [OF assms])

text \<open>
  What \<open>seek\<close> does on a paused engine whose handlers unregister nothing, when the
  event times are non-decreasing and at least one event has time at most \<open>t\<close>: every
  handler receives, event by event, exactly the events with time at most \<open>t\<close>, each
  with its index; the paused time becomes \<open>t\<close>; and the current index becomes the
  index of the last of those events.
\<close>

lemma seek_when_paused:
  assumes paused: "\<not> isPlaying e" and quiet: "\<And>h. body h = []"
    and sorted: "sorted (map time (events e))"
    and some: "\<exists>ev \<in> set (events e). time ev \<le> t"
  shows "seek body now t e =
     Some (e\<lparr>currentIndex := length (filter (\<lambda>ev. time ev \<le> t) (events e)) - 1,
              pausedAt := t\<rparr>,
           concat (map (\<lambda>i. map (\<lambda>h. (h, Some (filter (\<lambda>ev. time ev \<le> t) (events e) ! i), i))
                               (onEventHandlers e))
                       [0 ..< length (filter (\<lambda>ev. time ev \<le> t) (events e))]))"
proof -
  let ?p = "\<lambda>ev. time ev \<le> t"
  let ?pre = "filter ?p (events e)"
  have tw: "takeWhile ?p (events e) = ?pre"
    using sorted by (rule sorted_takeWhile_filter)
  from some have ne: "?pre \<noteq> []"
    by (simp add: filter_empty_conv)
  have target: "findTarget t (events e) 0 0 = length ?pre - 1"
    using ne by (simp add: findTarget_takeWhile tw)
  have suc: "Suc (length ?pre - 1) = length ?pre"
    using ne by (cases ?pre) simp_all
  have pre: "?pre = take (length ?pre) (events e)"
    using takeWhile_eq_take [of ?p "events e"] tw by simp
  have at: "at_index (events e) i = Some (?pre ! i)" if "i < length ?pre" for i
  proof -
    have "length ?pre \<le> length (events e)" by (rule length_filter_le)
    with that have "i < length (events e)" by (rule less_le_trans)
    moreover have "?pre ! i = events e ! i"
      using that by (subst pre) simp
    ultimately show ?thesis by (simp add: at_index_def)
  qed
  have calls:
    "map (\<lambda>i. map (\<lambda>h. (h, at_index (events e) i, i)) (onEventHandlers e)) [0 ..< length ?pre]
     = map (\<lambda>i. map (\<lambda>h. (h, Some (?pre ! i), i)) (onEventHandlers e)) [0 ..< length ?pre]"
    by (rule map_cong) (simp_all add: at)
  have run: "seek body now t e =
      Some (replay body [0 ..< Suc (findTarget t (events e) 0 0)]
              (e\<lparr>currentIndex := findTarget t (events e) 0 0, pausedAt := t\<rparr>))"
    using paused by (simp add: seek_def pause_def Let_def del: upt_Suc)
  show ?thesis
    unfolding run target suc
    by (simp add: replay_no_removals [OF quiet] calls)
qed

text \<open>
  C6. For every \<open>s \<le> 0\<close>, \<open>setSpeed(s)\<close> throws the error \<open>Speed must be positive\<close>
  and leaves the engine exactly as it was: speed, index, virtual time, playing flag and
  pending timer.
\<close>

theorem setSpeed_rejects_nonpositive:
  "s \<le> 0 \<Longrightarrow> setSpeed now s e = Some (Inl (Error ''Speed must be positive'', e))"
  by (simp add: setSpeed_def)

theorem setSpeed_rejects_nonpositive_witness:
  "(- 1 :: real) \<le> 0 \<and>
   setSpeed 1500 (- 1) playing_engine
     = Some (Inl (Error ''Speed must be positive'', playing_engine))"
  using setSpeed_rejects_nonpositive [of "- 1" 1500 playing_engine]
  by simp

text \<open>
  C2 says that \<open>loadEvents\<close> brings every engine, a playing one included, back to idle:
  not playing, index 0, time 0, and nothing of the old sequence delivered afterwards.
  \<open>loadEvents\<close> resets the index and the paused time only. Evaluated on the engine of the
  test suite after \<open>play()\<close> at wall time 1000: after loading a new list the engine is
  still playing, its clock reads 250 at wall time 1250, and the timer that \<open>play()\<close> set
  fires and hands the first event of the old list to the subscriber.
\<close>

theorem loadEvents_leaves_playback_running:
  "play 1000 loaded_engine = Some playing_engine \<and>
   getIsPlaying
     (loadEvents [KakiatoKeyboardEvent 50 keyup None ''x'' ''KeyX''] playing_engine) \<and>
   getCurrentTime 1250
     (loadEvents [KakiatoKeyboardEvent 50 keyup None ''x'' ''KeyX''] playing_engine) = 250 \<and>
   map_option snd
     (fireTimeout no_removals 1250
        (loadEvents [KakiatoKeyboardEvent 50 keyup None ''x'' ''KeyX''] playing_engine))
     = Some [(1, Some (KakiatoFocusEvent 0 focus None), 0)]"
  by (simp add: play_def loaded_engine_def playing_engine_def loadEvents_def onEvent_def
      PlaybackEngine_new_def mockEvents_def scheduleNextEvent.simps getIsPlaying_def
      getCurrentTime_def fireTimeout_def emitEvent_def no_removals_def Let_def number_ops)

text \<open>
  C3 says that when a handler unregisters a handler while an event is being delivered,
  nothing is thrown and every other handler registered at the start still receives the
  event once. \<open>emitEvent\<close> iterates over the live array that \<open>offEvent\<close> splices.
  Evaluated with handlers 1 and 2 registered, where 1 unregisters itself: nothing is
  thrown, handler 1 is called, the array becomes \<open>[2]\<close>, the iterator is at position 1,
  and handler 2 is never called.
\<close>

theorem self_removal_skips_next_handler:
  "emitEvent removes_itself (Some (KakiatoFocusEvent 0 focus None)) 0
     (onEvent 2 (onEvent 1 (PlaybackEngine_new None None)))
   = ((PlaybackEngine_new None None)\<lparr>onEventHandlers := [2]\<rparr>,
      [(1, Some (KakiatoFocusEvent 0 focus None), 0)])"
  by (simp add: emitEvent_def onEvent_def PlaybackEngine_new_def removes_itself_def
      offEvent_def splice1_def Let_def)

text \<open>
  C1 says that \<open>seek(t)\<close> delivers exactly the events with time at most \<open>t\<close> (none when
  there is none), leaves the virtual time at \<open>t\<close> and the next index one past the last
  delivered event, so that a fresh reconstructor ends in the state of that prefix.
  \<open>seek\<close> starts \<open>targetIndex\<close> at 0, always emits index 0, and stores \<open>targetIndex\<close>
  itself as the next index. Evaluated on the test events:
  with the first event at time 200, \<open>seek(100)\<close> delivers that event, and a fresh
  reconstructor then holds \<open>h\<close> instead of the empty text;
  \<open>seek(200)\<close> on the whole list leaves the index at 2, not 3;
  and the next \<open>play()\<close> delivers the event at index 2 a second time.
\<close>

theorem seek_delivers_too_much:
  "map_option snd (seek no_removals 0 100 (loadEvents (drop 2 mockEvents) loaded_engine))
     = Some [(1, Some (KakiatoInputEvent 200 input None ''insertText'' (Some ''h'') None), 0)] \<and>
   map_option (map_option text \<circ> feed 1 (reset []) \<circ> snd)
     (seek no_removals 0 100 (loadEvents (drop 2 mockEvents) loaded_engine))
     = Some (Some ''h'') \<and>
   map_option (getCurrentIndex \<circ> fst) (seek no_removals 0 200 loaded_engine) = Some 2 \<and>
   map_option snd
     (Option.bind (Option.bind (map_option fst (seek no_removals 0 200 loaded_engine))
        (play 1000)) (fireTimeout no_removals 1000))
     = Some [(1, Some (KakiatoInputEvent 200 input None ''insertText'' (Some ''h'') None), 2)]"
  by (simp add: seek_def pause_def play_def loaded_engine_def loadEvents_def onEvent_def
      PlaybackEngine_new_def mockEvents_def scheduleNextEvent.simps getCurrentIndex_def
      fireTimeout_def emitEvent_def no_removals_def at_index_def Let_def upt_rec reset_def
      insertText_def substring_def substring_from_def number_ops)




end
